theory Spec2Isabelle
  imports Complex_Main "HOL-Library.Product_Lexorder" "HOL-Library.Multiset" "HOL-Library.Sublist"
begin

section \<open>Python primitives used by \<open>ytmdl/metadata.py\<close>\<close>

text \<open>
  A Python \<open>str\<close> is modelled as a \<open>string\<close> whose characters are the code points
  below 256 (Latin-1); every string the development evaluates lies in that range.
  Python floats are modelled as exact rationals.
\<close>

datatype error = IndexError | ValueError | AttributeError

text \<open>The characters below 256 for which \<open>str.isspace\<close> holds; \<open>str.split()\<close> splits on runs of them.\<close>

definition is_space :: "char \<Rightarrow> bool" where
  "is_space c \<longleftrightarrow> c \<in> set [CHR 0x09, CHR 0x0A, CHR 0x0B, CHR 0x0C, CHR 0x0D,
     CHR 0x1C, CHR 0x1D, CHR 0x1E, CHR 0x1F, CHR 0x20, CHR 0x85, CHR 0xA0]"

text \<open>\<open>s.split()\<close>: the first argument is the word collected so far.\<close>

fun split_ws :: "string \<Rightarrow> string \<Rightarrow> string list" where
  "split_ws w [] = (if w = [] then [] else [w])"
| "split_ws w (c # cs) =
     (if is_space c then (if w = [] then split_ws [] cs else w # split_ws [] cs)
      else split_ws (w @ [c]) cs)"

definition py_split :: "string \<Rightarrow> string list" where
  "py_split s = split_ws [] s"

text \<open>\<open>' '.join(ws)\<close>.\<close>

fun join_sp :: "string list \<Rightarrow> string" where
  "join_sp [] = []"
| "join_sp [w] = w"
| "join_sp (w # v # r) = w @ CHR '' '' # join_sp (v # r)"

text \<open>\<open>s.lower()\<close> on code points below 256: A-Z and the Latin-1 capitals (not the
  multiplication sign 0xD7) move up by 32.\<close>

definition lower_char :: "char \<Rightarrow> char" where
  "lower_char c = (let n = (of_char c :: nat) in
     if (65 \<le> n \<and> n \<le> 90) \<or> (192 \<le> n \<and> n \<le> 222 \<and> n \<noteq> 215) then char_of (n + 32) else c)"

definition py_lower :: "string \<Rightarrow> string" where
  "py_lower s = map lower_char s"

text \<open>\<open>re.sub(r'\([^)]*\)', '', s)\<close>: an opening parenthesis followed later by a closing
  one is removed together with everything up to the first closing one; scanning resumes
  after it. Without a later closing parenthesis nothing in the rest can match.\<close>

function sub_parens :: "string \<Rightarrow> string" where
  "sub_parens [] = []"
| "sub_parens (c # cs) =
     (if c = CHR ''('' \<and> CHR '')'' \<in> set cs
      then sub_parens (tl (dropWhile (\<lambda>d. d \<noteq> CHR '')'') cs))
      else c # sub_parens cs)"
  by pat_completeness auto
termination
proof (relation "measure length")
  fix c :: char and cs :: string
  have "length (tl (dropWhile (\<lambda>d. d \<noteq> CHR '')'') cs)) \<le> length cs"
    using length_dropWhile_le [of "\<lambda>d. d \<noteq> CHR '')''" cs] by simp
  then show "(tl (dropWhile (\<lambda>d. d \<noteq> CHR '')'') cs), c # cs) \<in> measure length"
    by simp
qed simp_all

text \<open>\<open>re.sub(r'&', 'and', s)\<close>.\<close>

definition sub_amp :: "string \<Rightarrow> string" where
  "sub_amp s = concat (map (\<lambda>c. if c = CHR ''&'' then ''and'' else [c]) s)"

text \<open>\<open>s.split('T')[0]\<close>.\<close>

definition before_T :: "string \<Rightarrow> string" where
  "before_T s = takeWhile (\<lambda>c. c \<noteq> CHR ''T'') s"

section \<open>Candidate records\<close>

text \<open>The attributes of a provider's song object that \<open>metadata.py\<close> reads.
  \<open>release_date\<close> may be \<open>None\<close>.\<close>

record song =
  track_name :: string
  artist_name :: string
  collection_name :: string
  release_date :: "string option"

section \<open>\<open>filterSongs\<close> and \<open>_extend_to_be_sorted_and_rest\<close>\<close>

text \<open>\<open>filters[i]\<close> for a non-negative literal index.\<close>

definition index :: "'a list \<Rightarrow> nat \<Rightarrow> error + 'a" where
  "index xs i = (if i < length xs then Inr (xs ! i) else Inl IndexError)"

text \<open>The body of the loop of \<open>filterSongs\<close> for one song: \<open>None\<close> leaves the match flag
  \<open>True\<close>; the result says whether the song goes to \<open>new_tuple\<close>.\<close>

definition song_matches :: "song \<Rightarrow> string option list \<Rightarrow> error + bool" where
  "song_matches songData filters =
     (case index filters 0 of Inl e \<Rightarrow> Inl e
      | Inr f0 \<Rightarrow>
         let artistMatch = (case f0 of None \<Rightarrow> True | Some a \<Rightarrow> artist_name songData = a) in
         (case index filters 1 of Inl e \<Rightarrow> Inl e
          | Inr f1 \<Rightarrow>
             let albumMatch = (case f1 of None \<Rightarrow> True | Some a \<Rightarrow> collection_name songData = a)
             in Inr (artistMatch \<and> albumMatch)))"

fun filter_loop :: "song list \<Rightarrow> string option list \<Rightarrow> song list \<Rightarrow> song list
    \<Rightarrow> error + (song list \<times> song list)" where
  "filter_loop [] filters new_tuple rest = Inr (new_tuple, rest)"
| "filter_loop (songData # data) filters new_tuple rest =
     (case song_matches songData filters of Inl e \<Rightarrow> Inl e
      | Inr True \<Rightarrow> filter_loop data filters (new_tuple @ [songData]) rest
      | Inr False \<Rightarrow> filter_loop data filters new_tuple (rest @ [songData]))"

definition filterSongs :: "song list option \<Rightarrow> string option list \<Rightarrow> error + song list option" where
  "filterSongs data filters =
     (case data of None \<Rightarrow> Inr None
      | Some d \<Rightarrow> (case filter_loop d filters [] [] of Inl e \<Rightarrow> Inl e
                   | Inr (new_tuple, rest) \<Rightarrow> Inr (Some (new_tuple @ rest))))"

definition extend_to_be_sorted_and_rest ::
  "song list option \<Rightarrow> song list \<Rightarrow> song list \<Rightarrow> string option list
    \<Rightarrow> error + (song list \<times> song list)" where
  "extend_to_be_sorted_and_rest provider_data to_be_sorted rest filters =
     (case (if filters \<noteq> [] then filterSongs provider_data filters else Inr provider_data) of
        Inl e \<Rightarrow> Inl e
      | Inr None \<Rightarrow> Inr (to_be_sorted, rest)
      | Inr (Some d) \<Rightarrow> Inr (to_be_sorted @ d, rest @ d))"

section \<open>Text normalisation and similarity\<close>

text \<open>
  \<open>ytmdl.stringutils\<close> and the \<open>unidecode\<close> package are not among the sources, so the
  four string functions that \<open>_search_tokens\<close> imports from them are parameters of the model.
\<close>

record text_ops =
  unidecode :: "string \<Rightarrow> string"
  remove_multiple_spaces :: "string \<Rightarrow> string"
  remove_stopwords :: "string \<Rightarrow> string"
  remove_punct :: "string \<Rightarrow> string"

text \<open>Modelled from the spec: \<open>compute_jaccard\<close> of \<open>ytmdl.stringutils\<close> is missing from the
  sources. The spec gives the standard Jaccard index over the two token sets (intersection
  size over union size), and 0 when both inputs are empty.\<close>

definition compute_jaccard :: "string list \<Rightarrow> string list \<Rightarrow> rat" where
  "compute_jaccard tokens1 tokens2 =
     (let union = remdups (tokens1 @ tokens2);
          intersect = remdups (filter (\<lambda>t. t \<in> set tokens2) tokens1)
      in if union = [] then 0 else of_nat (length intersect) / of_nat (length union))"

text \<open>Lines 140-143 and 148-151: the string the query, and the title hint, are reduced to.\<close>

definition query_text :: "text_ops \<Rightarrow> string \<Rightarrow> string" where
  "query_text ops s =
     remove_punct ops (remove_stopwords ops (py_lower (remove_multiple_spaces ops (unidecode ops s))))"

text \<open>Lines 144-146.\<close>

definition ytSongNameTokens :: "text_ops \<Rightarrow> string \<Rightarrow> string list" where
  "ytSongNameTokens ops song_name =
     (let toks = py_split (query_text ops song_name)
      in if length toks > 5 then take 5 toks else toks)"

text \<open>Lines 157-165, repeated at 179-187 and 193-201: the statements applied, in this
  order, to a provider's track, artist and collection name.\<close>

definition provider_text :: "text_ops \<Rightarrow> string \<Rightarrow> string" where
  "provider_text ops name =
     (let s = py_lower name;
          s = sub_parens s;
          s = sub_amp s;
          s = remove_stopwords ops s;
          s = remove_punct ops s;
          s = remove_multiple_spaces ops s;
          s = unidecode ops s
      in s)"

section \<open>The ranker \<open>_search_tokens\<close>\<close>

text \<open>An element of \<open>res\<close>: the song with \<open>dist\<close>, \<open>albumDist\<close>, \<open>artistDist\<close> and
  \<open>weightedDist\<close>, in the order of the tuple built at line 208.\<close>

type_synonym scored = "song \<times> rat \<times> rat \<times> rat \<times> rat"

definition sc_song :: "scored \<Rightarrow> song" where
  "sc_song x = fst x"

definition sc_dist :: "scored \<Rightarrow> rat" where
  "sc_dist x = fst (snd x)"

definition sc_albumDist :: "scored \<Rightarrow> rat" where
  "sc_albumDist x = fst (snd (snd x))"

definition sc_artistDist :: "scored \<Rightarrow> rat" where
  "sc_artistDist x = fst (snd (snd (snd x)))"

definition sc_weightedDist :: "scored \<Rightarrow> rat" where
  "sc_weightedDist x = snd (snd (snd (snd x)))"

text \<open>Lines 178-206, run when the reduced title hint \<open>yt_title\<close> is a non-empty string:
  the artist, album and weighted scores of one song (\<open>dist1\<close> is the source's \<open>dist\<close>).\<close>

definition hint_scores :: "text_ops \<Rightarrow> string \<Rightarrow> string list \<Rightarrow> rat \<Rightarrow> song \<Rightarrow> rat \<times> rat \<times> rat" where
  "hint_scores ops yt_title providerSongNameTokens dist1 sng =
     (let ytTitleTokens = py_split yt_title;
          artistNameTokens = py_split (provider_text ops (artist_name sng));
          artistDist = compute_jaccard ytTitleTokens artistNameTokens;
          albumNameTokens = filter (\<lambda>t. t \<notin> set providerSongNameTokens \<and> t \<notin> set artistNameTokens)
                              (remdups (py_split (provider_text ops (collection_name sng))));
          albumDist = compute_jaccard ytTitleTokens albumNameTokens;
          weightedDist = (albumDist * (65 / 100)) + (artistDist * (3 / 10)) + (dist1 * (5 / 100))
      in (albumDist, artistDist, weightedDist))"

text \<open>Lines 155-208: the loop over the songs. \<open>sens\<close> is the configured
  \<open>SEARCH_SENSITIVITY\<close>, \<open>name_tokens\<close> the query tokens and \<open>yt_title\<close> the reduced hint.\<close>

fun score_loop :: "text_ops \<Rightarrow> rat \<Rightarrow> string list \<Rightarrow> string \<Rightarrow> song list \<Rightarrow> scored list" where
  "score_loop ops sens name_tokens yt_title [] = []"
| "score_loop ops sens name_tokens yt_title (sng # songs) =
     (let providerSongNameTokens = py_split (provider_text ops (track_name sng));
          dist1 = compute_jaccard name_tokens providerSongNameTokens
      in if dist1 \<ge> sens
         then (let (albumDist, artistDist, weightedDist) =
                     (if yt_title \<noteq> [] then hint_scores ops yt_title providerSongNameTokens dist1 sng
                      else (0, 0, 0))
               in (sng, dist1, albumDist, artistDist, weightedDist)
                    # score_loop ops sens name_tokens yt_title songs)
         else score_loop ops sens name_tokens yt_title songs)"

text \<open>Line 210: the sort key, and \<open>list.sort(key=..., reverse=True)\<close>, which is stable:
  CPython reverses the list, sorts it stably in ascending order and reverses it again.\<close>

definition sort_key_of :: "scored \<Rightarrow> rat \<times> rat \<times> rat \<times> rat" where
  "sort_key_of x = (sc_weightedDist x, sc_albumDist x, sc_artistDist x, sc_dist x)"

definition sort_reverse :: "scored list \<Rightarrow> scored list" where
  "sort_reverse res = rev (sort_key sort_key_of (rev res))"

subsection \<open>\<open>datetime.strptime\<close> for the three formats of lines 225-230\<close>

datatype date_format = Fmt_Y | Fmt_Ym | Fmt_Ymd

definition is_digit :: "char \<Rightarrow> bool" where
  "is_digit c \<longleftrightarrow> c \<in> set ''0123456789''"

definition num_val :: "string \<Rightarrow> nat" where
  "num_val s = foldl (\<lambda>n c. 10 * n + (of_char c - 48)) 0 s"

text \<open>\<open>s.split('-')\<close>; the first argument is the field collected so far.\<close>

fun split_dash :: "string \<Rightarrow> string \<Rightarrow> string list" where
  "split_dash w [] = [w]"
| "split_dash w (c # cs) = (if c = CHR ''-'' then w # split_dash [] cs else split_dash (w @ [c]) cs)"

text \<open>The directives as \<open>_strptime\<close> compiles them: \<open>%Y\<close> is four digits, \<open>%m\<close> is
  \<open>1[0-2]|0[1-9]|[1-9]\<close> and \<open>%d\<close> is \<open>3[01]|[12]\d|0[1-9]|[1-9]| [1-9]\<close>.\<close>

definition parse_Y :: "string \<Rightarrow> nat option" where
  "parse_Y s = (if length s = 4 \<and> list_all is_digit s then Some (num_val s) else None)"

definition parse_m :: "string \<Rightarrow> nat option" where
  "parse_m s = (if (length s = 1 \<or> length s = 2) \<and> list_all is_digit s \<and> 1 \<le> num_val s \<and> num_val s \<le> 12
                then Some (num_val s) else None)"

definition parse_d :: "string \<Rightarrow> nat option" where
  "parse_d s =
     (if (length s = 1 \<or> length s = 2) \<and> list_all is_digit s \<and> 1 \<le> num_val s \<and> num_val s \<le> 31
      then Some (num_val s)
      else if length s = 2 \<and> hd s = CHR '' '' \<and> is_digit (s ! 1) \<and> s ! 1 \<noteq> CHR ''0''
      then Some (num_val (tl s)) else None)"

definition is_leap :: "nat \<Rightarrow> bool" where
  "is_leap y \<longleftrightarrow> y mod 4 = 0 \<and> (y mod 100 \<noteq> 0 \<or> y mod 400 = 0)"

definition days_in_month :: "nat \<Rightarrow> nat \<Rightarrow> nat" where
  "days_in_month y m =
     (if m = 2 then (if is_leap y then 29 else 28)
      else if m \<in> set [4, 6, 9, 11] then 30 else 31)"

text \<open>The \<open>datetime\<close> built from the parsed fields: the year is at least 1 and the day exists
  in the month, otherwise \<open>ValueError\<close>. Missing fields default to 1.\<close>

definition make_date :: "nat option \<Rightarrow> nat option \<Rightarrow> nat option \<Rightarrow> error + (nat \<times> nat \<times> nat)" where
  "make_date yo mo dopt =
     (case (yo, mo, dopt) of
        (Some y, Some m, Some d) \<Rightarrow>
          (if 1 \<le> y \<and> d \<le> days_in_month y m then Inr (y, m, d) else Inl ValueError)
      | _ \<Rightarrow> Inl ValueError)"

definition strptime :: "string \<Rightarrow> date_format \<Rightarrow> error + (nat \<times> nat \<times> nat)" where
  "strptime s fmt =
     (case (fmt, split_dash [] s) of
        (Fmt_Y, [y]) \<Rightarrow> make_date (parse_Y y) (Some 1) (Some 1)
      | (Fmt_Ym, [y, m]) \<Rightarrow> make_date (parse_Y y) (parse_m m) (Some 1)
      | (Fmt_Ymd, [y, m, d]) \<Rightarrow> make_date (parse_Y y) (parse_m m) (parse_d d)
      | _ \<Rightarrow> Inl ValueError)"

text \<open>Lines 225-230: the format chosen from the length of the whole release date.\<close>

definition date_format_of :: "string \<Rightarrow> date_format" where
  "date_format_of d = (if length d = 7 then Fmt_Ym else if length d = 4 then Fmt_Y else Fmt_Ymd)"

subsection \<open>The release-date pass, lines 212-236\<close>

text \<open>\<open>release_date is None or release_date == ""\<close>.\<close>

definition no_date :: "song \<Rightarrow> bool" where
  "no_date sng \<longleftrightarrow> release_date sng = None \<or> release_date sng = Some []"

text \<open>\<open>res[0], res[i] = res[i], res[0]\<close>.\<close>

definition swap_first :: "nat \<Rightarrow> 'a list \<Rightarrow> 'a list" where
  "swap_first i res = res[0 := res ! i, i := res ! 0]"

text \<open>Lines 225-233 for two songs that both have a date: whether \<open>date1 > date2\<close>.\<close>

definition date1_later :: "song \<Rightarrow> song \<Rightarrow> error + bool" where
  "date1_later s0 si =
     (let d0 = the (release_date s0); di = the (release_date si);
          date_format1 = date_format_of d0;
          date_format2 = date_format_of di
      in case strptime (before_T d0) date_format1 of Inl e \<Rightarrow> Inl e
         | Inr date1 \<Rightarrow>
            (case strptime (before_T di) date_format2 of Inl e \<Rightarrow> Inl e
             | Inr date2 \<Rightarrow> Inr (date1 > date2)))"

text \<open>The body of the loop of line 215 for an index \<open>i\<close> with \<open>0 < i < 10\<close>, lines
  219-236: \<open>None\<close> is the \<open>break\<close>, otherwise the new value of
  \<open>first_item_weighted_dist\<close> and the list, swapped or not.\<close>

definition promote_step :: "nat \<Rightarrow> rat \<Rightarrow> scored list \<Rightarrow> error + (rat \<times> scored list) option" where
  "promote_step i first_item_weighted_dist res =
     (let fiwd = (if no_date (sc_song (res ! 0)) then sc_weightedDist (res ! i) * (7 / 10)
                  else first_item_weighted_dist)
      in if sc_weightedDist (res ! i) < fiwd then Inr None
         else if \<not> no_date (sc_song (res ! i)) \<and> \<not> no_date (sc_song (res ! 0))
         then (case date1_later (sc_song (res ! 0)) (sc_song (res ! i)) of
                 Inl e \<Rightarrow> Inl e
               | Inr later \<Rightarrow> Inr (Some (fiwd, if later then swap_first i res else res)))
         else if no_date (sc_song (res ! 0)) then Inr (Some (fiwd, swap_first i res))
         else Inr (Some (fiwd, res)))"

lemma promote_step_length:
  "promote_step i t res = Inr (Some (t', res')) \<Longrightarrow> length res' = length res"
  by (auto simp: promote_step_def Let_def swap_first_def split: if_splits sum.splits)

text \<open>The loop \<open>for i in range(0, len(res))\<close>, from index \<open>i\<close> on, with the current value
  of \<open>first_item_weighted_dist\<close>. Indices from 10 on, and index 0, do nothing.\<close>

function promote_loop :: "nat \<Rightarrow> rat \<Rightarrow> scored list \<Rightarrow> error + scored list" where
  "promote_loop i first_item_weighted_dist res =
     (if \<not> i < length res then Inr res
      else if \<not> i < 10 \<or> i = 0 then promote_loop (Suc i) first_item_weighted_dist res
      else (case promote_step i first_item_weighted_dist res of
              Inl e \<Rightarrow> Inl e
            | Inr None \<Rightarrow> Inr res
            | Inr (Some (fiwd, res')) \<Rightarrow> promote_loop (Suc i) fiwd res'))"
  by pat_completeness auto
termination
proof (relation "measure (\<lambda>(i, t, res). length res - i)")
  fix i :: nat and t t' :: rat and res res' :: "scored list" and r p
  assume "\<not> \<not> i < length res" and "promote_step i t res = Inr r" and "r = Some p" and "(t', res') = p"
  then have "length res' = length res" and "i < length res"
    using promote_step_length [of i t res t' res'] by auto
  then show "((Suc i, t', res'), (i, t, res)) \<in> measure (\<lambda>(i, t, res). length res - i)"
    by simp
qed auto

declare promote_loop.simps [simp del]

text \<open>Lines 212-214.\<close>

definition promote :: "scored list \<Rightarrow> error + scored list" where
  "promote res =
     (if length res > 0 then promote_loop 0 (sc_weightedDist (res ! 0) * (7 / 10)) res
      else Inr res)"

subsection \<open>The final pass, lines 239-250\<close>

text \<open>What the returned list holds: a song, or a scoring tuple that was not replaced.\<close>

datatype entry = Song song | Tuple song rat rat rat rat

text \<open>The loop from index \<open>i\<close> on, over the rest of \<open>res\<close>. \<open>None.split\<close> is an
  \<open>AttributeError\<close>.\<close>

fun final_loop :: "nat \<Rightarrow> scored list \<Rightarrow> error + entry list" where
  "final_loop i [] = Inr []"
| "final_loop i ((sng, dist1, albumDist, artistDist, weightedDist) # res) =
     (if no_date sng \<and> i = 0
      then (case final_loop (Suc i) res of Inl e \<Rightarrow> Inl e
            | Inr out \<Rightarrow> Inr (Tuple sng dist1 albumDist artistDist weightedDist # out))
      else (case release_date sng of None \<Rightarrow> Inl AttributeError
            | Some d \<Rightarrow>
               (case final_loop (Suc i) res of Inl e \<Rightarrow> Inl e
                | Inr out \<Rightarrow> Inr (Song (sng\<lparr>release_date := Some (before_T d)\<rparr>) # out))))"

text \<open>\<open>_search_tokens(song_name, song_list, yt_title)\<close>, with the configured
  \<open>SEARCH_SENSITIVITY\<close> as \<open>sens\<close>: first the list \<open>res\<close> as the loop of lines 155-208
  leaves it.\<close>

definition scored_res :: "text_ops \<Rightarrow> rat \<Rightarrow> string \<Rightarrow> song list \<Rightarrow> string \<Rightarrow> scored list" where
  "scored_res ops sens song_name song_list yt_title =
     score_loop ops sens (ytSongNameTokens ops song_name) (query_text ops yt_title) song_list"

text \<open>The list \<open>res\<close> after the sort of line 210.\<close>

definition sorted_res :: "text_ops \<Rightarrow> rat \<Rightarrow> string \<Rightarrow> song list \<Rightarrow> string \<Rightarrow> scored list" where
  "sorted_res ops sens song_name song_list yt_title =
     sort_reverse (scored_res ops sens song_name song_list yt_title)"

definition search_tokens :: "text_ops \<Rightarrow> rat \<Rightarrow> string \<Rightarrow> song list \<Rightarrow> string \<Rightarrow> error + entry list" where
  "search_tokens ops sens song_name song_list yt_title =
     (case promote (sorted_res ops sens song_name song_list yt_title) of
        Inl e \<Rightarrow> Inl e
      | Inr res \<Rightarrow> final_loop 0 res)"

section \<open>\<open>SEARCH_SONG\<close>\<close>

subsection \<open>Query variants, lines 312-346\<close>

text \<open>Lines 316-327, which the source repeats at 332-343 for the tokens of \<open>yt_title\<close>:
  the variants appended for one token list.\<close>

definition variants_of_tokens :: "string list \<Rightarrow> string list" where
  "variants_of_tokens search_by_song_name_tokens =
     (if length search_by_song_name_tokens > 3
      then (if length search_by_song_name_tokens > 5
            then [join_sp (take 5 search_by_song_name_tokens)] else [])
           @ [join_sp (take 3 search_by_song_name_tokens),
              join_sp (take 2 search_by_song_name_tokens),
              join_sp (take 1 search_by_song_name_tokens),
              join_sp (take 2 (drop 2 search_by_song_name_tokens))]
      else [])"

text \<open>The list \<open>search_by_query_names_array\<close> as it stands before line 346.\<close>

definition search_by_query_names_array :: "string \<Rightarrow> string \<Rightarrow> string list" where
  "search_by_query_names_array search_by yt_title =
     [search_by] @ variants_of_tokens (py_split search_by)
       @ (if yt_title \<noteq> search_by then variants_of_tokens (py_split yt_title) else [])"


subsection \<open>The environment\<close>

text \<open>
  What \<open>SEARCH_SONG\<close> reads from outside \<open>metadata.py\<close>:
  \<^item> \<open>METADATA_PROVIDERS\<close> and \<open>SEARCH_SENSITIVITY\<close>, the configuration;
  \<^item> \<open>get_from name query\<close>, what the function registered under \<open>name\<close> in
    \<open>GET_METADATA_ACTIONS\<close> returns for \<open>query\<close>: each \<open>get_from_*\<close> catches every
    exception of its provider and then returns \<open>None\<close>;
  \<^item> \<open>set_iter\<close>, the order in which Python iterates the set built from a list (the
    order is not fixed by the language);
  \<^item> \<open>hash\<close>, the \<open>hash()\<close> method of the providers' song objects.
\<close>

record 'h env =
  METADATA_PROVIDERS :: "string list"
  SEARCH_SENSITIVITY :: rat
  get_from :: "string \<Rightarrow> string \<Rightarrow> song list option"
  set_iter :: "string list \<Rightarrow> string list"
  hash :: "song \<Rightarrow> 'h"

text \<open>The keys of \<open>GET_METADATA_ACTIONS\<close>, lines 300-308.\<close>

definition GET_METADATA_ACTIONS :: "string list" where
  "GET_METADATA_ACTIONS =
     [''itunes'', ''gaana'', ''deezer'', ''saavn'', ''lastfm'', ''musicbrainz'', ''spotify'']"

subsection \<open>The aggregation loops, lines 349-364\<close>

text \<open>The state is \<open>(to_be_sorted, rest, broken_provider_counter)\<close>. \<open>if data_provider:\<close>
  holds for a list that is neither \<open>None\<close> nor empty.\<close>

fun provider_loop :: "(string \<Rightarrow> string \<Rightarrow> song list option) \<Rightarrow> string option list \<Rightarrow> string
    \<Rightarrow> string list \<Rightarrow> song list \<times> song list \<times> nat \<Rightarrow> error + (song list \<times> song list \<times> nat)" where
  "provider_loop gf filters search_by_query [] st = Inr st"
| "provider_loop gf filters search_by_query (provider # providers) (to_be_sorted, rest, broken) =
     (if provider \<in> set GET_METADATA_ACTIONS
      then (let data_provider = gf provider search_by_query
            in if data_provider \<noteq> None \<and> data_provider \<noteq> Some []
               then (case extend_to_be_sorted_and_rest data_provider to_be_sorted rest filters of
                       Inl e \<Rightarrow> Inl e
                     | Inr (to_be_sorted', rest') \<Rightarrow>
                         provider_loop gf filters search_by_query providers (to_be_sorted', rest', broken))
               else provider_loop gf filters search_by_query providers (to_be_sorted, rest, broken))
      else provider_loop gf filters search_by_query providers (to_be_sorted, rest, broken + 1))"

fun query_loop :: "(string \<Rightarrow> string \<Rightarrow> song list option) \<Rightarrow> string option list \<Rightarrow> string list
    \<Rightarrow> string list \<Rightarrow> song list \<times> song list \<times> nat \<Rightarrow> error + (song list \<times> song list \<times> nat)" where
  "query_loop gf filters metadata_providers [] st = Inr st"
| "query_loop gf filters metadata_providers (search_by_query # queries) st =
     (case provider_loop gf filters search_by_query metadata_providers st of
        Inl e \<Rightarrow> Inl e
      | Inr st' \<Rightarrow> query_loop gf filters metadata_providers queries st')"

subsection \<open>Deduplication, lines 366-374\<close>

fun dedup_loop :: "(song \<Rightarrow> 'h) \<Rightarrow> song list \<Rightarrow> 'h set \<Rightarrow> song list \<Rightarrow> song list" where
  "dedup_loop h [] to_be_sorted_hash to_be_sorted_unique = to_be_sorted_unique"
| "dedup_loop h (item # items) to_be_sorted_hash to_be_sorted_unique =
     (if h item \<notin> to_be_sorted_hash
      then dedup_loop h items (insert (h item) to_be_sorted_hash) (to_be_sorted_unique @ [item])
      else dedup_loop h items to_be_sorted_hash to_be_sorted_unique)"

definition dedup :: "(song \<Rightarrow> 'h) \<Rightarrow> song list \<Rightarrow> song list" where
  "dedup h to_be_sorted = dedup_loop h to_be_sorted {} []"

subsection \<open>The whole operation\<close>

text \<open>The pool handed on after line 374, the value of \<open>broken_provider_counter\<close> with it.\<close>

definition aggregate :: "'h env \<Rightarrow> string \<Rightarrow> string option list \<Rightarrow> string
    \<Rightarrow> error + (song list \<times> nat)" where
  "aggregate env search_by filters yt_title =
     (case query_loop (get_from env) filters (METADATA_PROVIDERS env)
             (set_iter env (search_by_query_names_array search_by yt_title)) ([], [], 0) of
        Inl e \<Rightarrow> Inl e
      | Inr (to_be_sorted, rest, broken) \<Rightarrow> Inr (dedup (hash env) to_be_sorted, broken))"

text \<open>The outcome of a call that does not raise: whether the critical message of line 379
  was logged, and the returned value (\<open>None\<close>, or the list).\<close>

record outcome =
  critical_logged :: bool
  returned :: "entry list option"

definition SEARCH_SONG :: "text_ops \<Rightarrow> 'h env \<Rightarrow> string \<Rightarrow> string \<Rightarrow> string option list \<Rightarrow> bool
    \<Rightarrow> string \<Rightarrow> error + outcome" where
  "SEARCH_SONG ops env search_by song_name filters disable_sort yt_title =
     (case aggregate env search_by filters yt_title of
        Inl e \<Rightarrow> Inl e
      | Inr (to_be_sorted, broken) \<Rightarrow>
          let critical = (broken = length (METADATA_PROVIDERS env)) in
          if to_be_sorted = [] then Inr \<lparr>critical_logged = critical, returned = None\<rparr>
          else if disable_sort
          then Inr \<lparr>critical_logged = critical, returned = Some (map Song to_be_sorted)\<rparr>
          else (case search_tokens ops (SEARCH_SENSITIVITY env) song_name to_be_sorted yt_title of
                  Inl e \<Rightarrow> Inl e
                | Inr sorted_data \<Rightarrow> Inr \<lparr>critical_logged = critical, returned = Some sorted_data\<rparr>))"

section \<open>A concrete normaliser for the examples\<close>

text \<open>Modelled from the spec: the bodies of \<open>remove_multiple_spaces\<close>, \<open>remove_stopwords\<close>,
  \<open>remove_punct\<close> (\<open>ytmdl.stringutils\<close>) and \<open>unidecode\<close> are missing from the sources.
  The spec describes them as: collapse runs of whitespace to one space; strip stopwords, a
  fixed list of low-information words of which it names "the", "feat" and "ft"; strip
  punctuation characters; transliterate to the ASCII equivalent. The general theorems hold
  for every \<open>text_ops\<close>; this instance is used only to evaluate examples. Its stopword list
  holds the three named words, its punctuation is the ASCII punctuation, and its
  transliteration keeps ASCII, maps the listed accented Latin-1 letters to their base letter
  and drops any other character.\<close>

fun collapse_spaces :: "bool \<Rightarrow> string \<Rightarrow> string" where
  "collapse_spaces in_run [] = []"
| "collapse_spaces in_run (c # cs) =
     (if is_space c
      then (if in_run then collapse_spaces True cs else CHR '' '' # collapse_spaces True cs)
      else c # collapse_spaces False cs)"

definition spec_remove_multiple_spaces :: "string \<Rightarrow> string" where
  "spec_remove_multiple_spaces s = collapse_spaces False s"

definition spec_stopwords :: "string list" where
  "spec_stopwords = [''the'', ''feat'', ''ft'']"

definition spec_remove_stopwords :: "string \<Rightarrow> string" where
  "spec_remove_stopwords s = join_sp (filter (\<lambda>t. t \<notin> set spec_stopwords) (py_split s))"

definition is_ascii_punct :: "char \<Rightarrow> bool" where
  "is_ascii_punct c \<longleftrightarrow> (let n = (of_char c :: nat) in
     (33 \<le> n \<and> n \<le> 47) \<or> (58 \<le> n \<and> n \<le> 64) \<or> (91 \<le> n \<and> n \<le> 96) \<or> (123 \<le> n \<and> n \<le> 126))"

definition spec_remove_punct :: "string \<Rightarrow> string" where
  "spec_remove_punct s = filter (\<lambda>c. \<not> is_ascii_punct c) s"

definition spec_unidecode_char :: "char \<Rightarrow> string" where
  "spec_unidecode_char c =
     (if (of_char c :: nat) < 128 then [c]
      else if c \<in> set [CHR 0xE8, CHR 0xE9, CHR 0xEA, CHR 0xEB] then ''e''
      else if c \<in> set [CHR 0xC8, CHR 0xC9, CHR 0xCA, CHR 0xCB] then ''E''
      else [])"

definition spec_unidecode :: "string \<Rightarrow> string" where
  "spec_unidecode s = concat (map spec_unidecode_char s)"

definition spec_ops :: text_ops where
  "spec_ops = \<lparr>unidecode = spec_unidecode,
               remove_multiple_spaces = spec_remove_multiple_spaces,
               remove_stopwords = spec_remove_stopwords,
               remove_punct = spec_remove_punct\<rparr>"

section \<open>Notions used to state the properties\<close>

text \<open>The title score of a song, lines 157-170.\<close>

definition title_dist :: "text_ops \<Rightarrow> string \<Rightarrow> song \<Rightarrow> rat" where
  "title_dist ops song_name sng =
     compute_jaccard (ytSongNameTokens ops song_name) (py_split (provider_text ops (track_name sng)))"

text \<open>A song with its release date cut before the first \<open>T\<close>; a missing date stays missing.\<close>

definition truncated :: "song \<Rightarrow> song" where
  "truncated sng = sng\<lparr>release_date := map_option before_T (release_date sng)\<rparr>"

fun entry_song :: "entry \<Rightarrow> song" where
  "entry_song (Song sng) = sng"
| "entry_song (Tuple sng d al ar w) = sng"




section \<open>Example data\<close>

definition ex_song :: song where
  "ex_song = \<lparr>track_name = ''Cradles'', artist_name = ''Sub Urban'',
              collection_name = ''Cradles - Single'', release_date = Some ''2019-01-05T08:00:00Z''\<rparr>"


definition ex_no_date :: song where
  "ex_no_date = \<lparr>track_name = ''Cradles'', artist_name = ''Sub Urban'',
              collection_name = ''Cradles - Single'', release_date = Some []\<rparr>"



definition ex_unrelated :: song where
  "ex_unrelated = \<lparr>track_name = ''Bohemian Rhapsody'', artist_name = ''Queen'',
              collection_name = ''A Night at the Opera'', release_date = Some ''1975-10-31''\<rparr>"



text \<open>An environment for the examples: the set is iterated in first-occurrence order and
  a song's hash is built from its track, artist and collection name.\<close>

definition ex_env :: "string list \<Rightarrow> (string \<Rightarrow> string \<Rightarrow> song list option)
    \<Rightarrow> (string \<times> string \<times> string) env" where
  "ex_env providers gf =
     \<lparr>METADATA_PROVIDERS = providers, SEARCH_SENSITIVITY = 1 / 2, get_from = gf,
      set_iter = remdups, hash = (\<lambda>s. (track_name s, artist_name s, collection_name s))\<rparr>"

text \<open>Providers that fail, or find nothing, for every query.\<close>

definition no_result :: "string \<Rightarrow> string \<Rightarrow> song list option" where
  "no_result name query = None"

section \<open>\<open>filterSongs\<close> needs two filters\<close>

lemma filter_loop_short:
  "data \<noteq> [] \<Longrightarrow> length filters < 2 \<Longrightarrow> filter_loop data filters nt rest = Inl IndexError"
  by (cases data) (auto simp: song_matches_def index_def split: sum.splits)

text \<open>
  Claim C10. \<open>filterSongs\<close> reads \<open>filters[0]\<close> and \<open>filters[1]\<close> for every song: on a
  candidate list that is neither \<open>None\<close> nor empty, a filters list of fewer than two
  elements (the default \<open>[]\<close> included) raises \<open>IndexError\<close>.
  \<open>_extend_to_be_sorted_and_rest\<close> does not raise for the empty filters list, because it
  calls \<open>filterSongs\<close> only when the list is non-empty; for a one-element list it raises too.
\<close>

theorem filterSongs_short_filters:
  "data \<noteq> [] \<Longrightarrow> length filters < 2 \<Longrightarrow>
     filterSongs (Some data) filters = Inl IndexError
     \<and> extend_to_be_sorted_and_rest (Some data) to_be_sorted rest [] = Inr (to_be_sorted @ data, rest @ data)
     \<and> (filters \<noteq> [] \<longrightarrow> extend_to_be_sorted_and_rest (Some data) to_be_sorted rest filters = Inl IndexError)"
  by (simp add: filterSongs_def extend_to_be_sorted_and_rest_def filter_loop_short)

theorem filterSongs_short_filters_witness:
  "[ex_song] \<noteq> [] \<and> length [Some ''Sub Urban''] < 2
   \<and> filterSongs (Some [ex_song]) [Some ''Sub Urban''] = Inl IndexError
   \<and> filterSongs (Some [ex_song]) [] = Inl IndexError
   \<and> extend_to_be_sorted_and_rest (Some [ex_song]) [] [] [] = Inr ([ex_song], [ex_song])
   \<and> extend_to_be_sorted_and_rest (Some [ex_song]) [] [] [Some ''Sub Urban''] = Inl IndexError"
  using filterSongs_short_filters [of "[ex_song]" "[Some ''Sub Urban'']" "[]" "[]"]
    filterSongs_short_filters [of "[ex_song]" "[]" "[]" "[]"]
  by simp

section \<open>Deduplication keeps the first record of each hash\<close>









section \<open>Query variants\<close>

lemmas split_eval = py_split_def is_space_def





section \<open>Searches that collect nothing\<close>

lemma provider_loop_nothing:
  "\<forall>p \<in> set ps. p \<in> set GET_METADATA_ACTIONS \<longrightarrow> gf p q = None \<or> gf p q = Some [] \<Longrightarrow>
     \<exists>b'. provider_loop gf filters q ps (tbs, rest, b) = Inr (tbs, rest, b')"
  by (induction ps arbitrary: b) auto

lemma query_loop_nothing:
  "\<forall>q \<in> set qs. \<forall>p \<in> set ps. p \<in> set GET_METADATA_ACTIONS \<longrightarrow> gf p q = None \<or> gf p q = Some [] \<Longrightarrow>
     \<exists>b'. query_loop gf filters ps qs (tbs, rest, b) = Inr (tbs, rest, b')"
proof (induction qs arbitrary: b)
  case Nil
  show ?case by simp
next
  case (Cons q qs)
  from Cons.prems obtain b1 where "provider_loop gf filters q ps (tbs, rest, b) = Inr (tbs, rest, b1)"
    using provider_loop_nothing [of ps gf q filters tbs rest b] by auto
  moreover from Cons obtain b2 where "query_loop gf filters ps qs (tbs, rest, b1) = Inr (tbs, rest, b2)"
    by force
  ultimately show ?case by simp
qed

lemma nothing_aggregated:
  assumes "\<forall>q. \<forall>p \<in> set (METADATA_PROVIDERS env). p \<in> set GET_METADATA_ACTIONS \<longrightarrow>
             get_from env p q = None \<or> get_from env p q = Some []"
  shows "\<exists>b. aggregate env search_by filters yt_title = Inr ([], b)"
proof -
  obtain b where "query_loop (get_from env) filters (METADATA_PROVIDERS env)
             (set_iter env (search_by_query_names_array search_by yt_title)) ([], [], 0) = Inr ([], [], b)"
    using query_loop_nothing [of _ "METADATA_PROVIDERS env" "get_from env" filters "[]" "[]" 0] assms
    by blast
  then show ?thesis by (simp add: aggregate_def dedup_def)
qed

lemma GMA_eval: "''itunes'' \<in> set GET_METADATA_ACTIONS" "''napster'' \<notin> set GET_METADATA_ACTIONS"
  by (simp_all add: GET_METADATA_ACTIONS_def)

lemmas search_eval = SEARCH_SONG_def aggregate_def ex_env_def search_by_query_names_array_def
  variants_of_tokens_def split_eval GMA_eval dedup_def no_result_def

text \<open>
  Claim C6, as stated, fails: with a provider list that holds only an unrecognised name,
  \<open>SEARCH_SONG\<close> raises nothing. It returns \<open>None\<close>, the value it also returns when
  nothing was found (the source says so at lines 376-377).
\<close>

theorem unknown_providers_counterexample:
  "SEARCH_SONG spec_ops (ex_env [''napster''] no_result) ''Cradles'' ''Cradles'' [] False []
     = Inr \<lparr>critical_logged = True, returned = None\<rparr>"
  by (simp add: search_eval)

text \<open>
  Claim C6, amended. If every name in the configured provider list is unrecognised, no
  candidate is collected, no ranking is attempted and \<open>SEARCH_SONG\<close> returns \<open>None\<close>
  without raising: the same returned value as when nothing was found.
\<close>

theorem unknown_providers_return_None:
  assumes "\<forall>p \<in> set (METADATA_PROVIDERS env). p \<notin> set GET_METADATA_ACTIONS"
  shows "(\<exists>b. aggregate env search_by filters yt_title = Inr ([], b))
     \<and> (\<exists>c. SEARCH_SONG ops env search_by song_name filters disable_sort yt_title
           = Inr \<lparr>critical_logged = c, returned = None\<rparr>)"
proof -
  obtain b where "aggregate env search_by filters yt_title = Inr ([], b)"
    using nothing_aggregated [of env search_by filters yt_title] assms by blast
  then show ?thesis by (simp add: SEARCH_SONG_def)
qed

theorem unknown_providers_return_None_witness:
  "(\<exists>b. aggregate (ex_env [''napster'', ''tidal''] no_result) ''a b c d'' [Some ''Sub Urban'', None] ''Cradles''
          = Inr ([], b))
   \<and> (\<exists>c. SEARCH_SONG spec_ops (ex_env [''napster'', ''tidal''] no_result) ''a b c d'' ''Cradles''
             [Some ''Sub Urban'', None] False ''Cradles''
           = Inr \<lparr>critical_logged = c, returned = None\<rparr>)"
  using unknown_providers_return_None [of "ex_env [''napster'', ''tidal''] no_result" "''a b c d''"
      "[Some ''Sub Urban'', None]" "''Cradles''" spec_ops "''Cradles''" False]
  by (simp add: ex_env_def GET_METADATA_ACTIONS_def)

text \<open>
  Claim C9, as stated, fails in its last part: the outcome of a search whose only provider
  finds nothing is not distinct from the outcome of a search whose only provider name is
  unrecognised. For a four-word query both return \<open>None\<close> and neither logs the critical
  message.
\<close>

theorem no_results_counterexample:
  "SEARCH_SONG spec_ops (ex_env [''itunes''] no_result) ''a b c d'' ''a b c d'' [] False []
     = SEARCH_SONG spec_ops (ex_env [''napster''] no_result) ''a b c d'' ''a b c d'' [] False []"
  by (simp add: search_eval)

text \<open>
  Claim C9, amended. If every lookup of every configured provider returns no result
  (\<open>None\<close> on failure, or an empty list) for every query, \<open>SEARCH_SONG\<close> returns \<open>None\<close>
  and raises no error.
\<close>

theorem no_results_returns_None:
  assumes "\<forall>q. \<forall>p \<in> set (METADATA_PROVIDERS env). get_from env p q = None \<or> get_from env p q = Some []"
  shows "\<exists>c. SEARCH_SONG ops env search_by song_name filters disable_sort yt_title
           = Inr \<lparr>critical_logged = c, returned = None\<rparr>"
proof -
  obtain b where "aggregate env search_by filters yt_title = Inr ([], b)"
    using nothing_aggregated [of env search_by filters yt_title] assms by blast
  then show ?thesis by (simp add: SEARCH_SONG_def)
qed

theorem no_results_returns_None_witness:
  "\<exists>c. SEARCH_SONG spec_ops (ex_env [''itunes'', ''deezer''] no_result) ''a b c d'' ''Cradles''
          [Some ''Sub Urban'', None] False ''Cradles''
        = Inr \<lparr>critical_logged = c, returned = None\<rparr>"
  using no_results_returns_None [of "ex_env [''itunes'', ''deezer''] no_result" spec_ops "''a b c d''"
      "''Cradles''" "[Some ''Sub Urban'', None]" False "''Cradles''"]
  by (simp add: ex_env_def no_result_def)

section \<open>The ranker: auxiliary facts\<close>





lemma sort_reverse_mset: "mset (sort_reverse res) = mset res"
  by (simp add: sort_reverse_def)



lemma score_loop_songs:
  "map sc_song (score_loop ops sens nt yt songs)
     = filter (\<lambda>s. sens \<le> compute_jaccard nt (py_split (provider_text ops (track_name s)))) songs"
  by (induction songs) (auto simp: Let_def sc_song_def split: prod.splits)

lemma swap_first_mset: "i < length res \<Longrightarrow> mset (swap_first i res) = mset res"
  unfolding swap_first_def by (rule mset_swap) auto


lemma promote_step_cases:
  assumes "promote_step i t res = Inr (Some (t', res'))"
  shows "res' = res \<or> res' = swap_first i res"
  using assms by (auto simp: promote_step_def Let_def split: if_splits sum.splits)

lemma promote_loop_preserves:
  assumes step: "\<And>j xs. 0 < j \<Longrightarrow> j < 10 \<Longrightarrow> j < length xs \<Longrightarrow> P xs \<Longrightarrow> P (swap_first j xs)"
  shows "P res \<Longrightarrow> promote_loop i t res = Inr res' \<Longrightarrow> P res'"
proof (induction i t res rule: promote_loop.induct)
  case (1 i t res)
  show ?case
  proof (cases "i < length res")
    case False
    with "1.prems" show ?thesis by (simp add: promote_loop.simps [of i t res])
  next
    case len: True
    show ?thesis
    proof (cases "\<not> i < 10 \<or> i = 0")
      case True
      with len "1.prems" have "promote_loop (Suc i) t res = Inr res'"
        by (simp add: promote_loop.simps [of i t res])
      with "1.IH"(1) len True "1.prems"(1) show ?thesis by simp
    next
      case False
      with len "1.prems"(2) consider "res' = res"
        | t2 res2 where "promote_step i t res = Inr (Some (t2, res2))" "promote_loop (Suc i) t2 res2 = Inr res'"
        by (auto simp: promote_loop.simps [of i t res] split: sum.splits option.splits)
      then show ?thesis
      proof cases
        case 1
        with "1.prems"(1) show ?thesis by simp
      next
        case 2
        have "P res2"
          using promote_step_cases [OF 2(1)] step [of i res] False len "1.prems"(1) by auto
        with "1.IH"(2) [OF _ _ 2(1) refl refl] len False 2(2) show ?thesis by simp
      qed
    qed
  qed
qed

lemma promote_loop_mset: "promote_loop i t res = Inr res' \<Longrightarrow> mset res' = mset res"
  using promote_loop_preserves [of "\<lambda>xs. mset xs = mset res" res i t res']
  by (simp add: swap_first_mset)

lemma promote_mset: "promote res = Inr res' \<Longrightarrow> mset res' = mset res"
  by (auto simp: promote_def promote_loop_mset split: if_splits)

lemma truncated_no_date: "no_date sng \<Longrightarrow> truncated sng = sng"
  by (auto simp: no_date_def truncated_def before_T_def)

lemma truncated_Some: "release_date sng = Some d \<Longrightarrow> sng\<lparr>release_date := Some (before_T d)\<rparr> = truncated sng"
  by (simp add: truncated_def)

lemma final_loop_songs:
  "final_loop i res = Inr out \<Longrightarrow> map entry_song out = map (truncated \<circ> sc_song) res"
proof (induction res arbitrary: i out)
  case Nil
  then show ?case by simp
next
  case (Cons x res)
  obtain sng d al ar w where x: "x = (sng, d, al, ar, w)" by (cases x)
  from Cons.prems show ?case
    by (auto simp: x sc_song_def truncated_no_date truncated_Some
        split: if_splits sum.splits option.splits dest: Cons.IH)
qed















section \<open>Scores and sort order\<close>







section \<open>The relevance floor\<close>

text \<open>
  Claim C2. The candidates kept by the loop are exactly the candidates whose title score
  (Jaccard index of the up to five leading query tokens and the track-name tokens) is at
  least the sensitivity, whatever their artist, album and release date; and whenever
  \<open>_search_tokens\<close> returns a list, the songs of that list are, as a multiset, exactly
  those candidates with their release dates cut before the \<open>T\<close>: a candidate below the
  floor is nowhere in the output and every candidate at or above it is there.
\<close>

theorem relevance_floor:
  "map sc_song (scored_res ops sens song_name song_list yt_title)
     = filter (\<lambda>s. sens \<le> title_dist ops song_name s) song_list
   \<and> (search_tokens ops sens song_name song_list yt_title = Inr out \<longrightarrow>
        mset (map entry_song out)
          = mset (map truncated (filter (\<lambda>s. sens \<le> title_dist ops song_name s) song_list)))"
proof (intro conjI impI)
  show kept: "map sc_song (scored_res ops sens song_name song_list yt_title)
     = filter (\<lambda>s. sens \<le> title_dist ops song_name s) song_list"
    by (simp add: scored_res_def score_loop_songs title_dist_def)
  assume "search_tokens ops sens song_name song_list yt_title = Inr out"
  then obtain res where p: "promote (sorted_res ops sens song_name song_list yt_title) = Inr res"
    and f: "final_loop 0 res = Inr out"
    by (auto simp: search_tokens_def split: sum.splits)
  have "mset res = mset (scored_res ops sens song_name song_list yt_title)"
    using promote_mset [OF p] by (simp add: sorted_res_def sort_reverse_mset)
  then have "mset (map (truncated \<circ> sc_song) res)
      = mset (map (truncated \<circ> sc_song) (scored_res ops sens song_name song_list yt_title))"
    by (metis mset_map)
  also have "\<dots> = mset (map truncated (filter (\<lambda>s. sens \<le> title_dist ops song_name s) song_list))"
    using kept by (metis map_map)
  finally show "mset (map entry_song out)
          = mset (map truncated (filter (\<lambda>s. sens \<le> title_dist ops song_name s) song_list))"
    using final_loop_songs [OF f] by simp
qed

lemma ex_floor_run:
  "search_tokens spec_ops (1 / 2) ''Cradles'' [ex_unrelated, ex_song] ''Sub Urban - Cradles''
     = Inr [Song (ex_song\<lparr>release_date := Some ''2019-01-05''\<rparr>)]"
  by code_simp

lemma ex_floor_dists:
  "title_dist spec_ops ''Cradles'' ex_unrelated = 0" "title_dist spec_ops ''Cradles'' ex_song = 1"
  by code_simp+

theorem relevance_floor_witness:
  "title_dist spec_ops ''Cradles'' ex_unrelated < 1 / 2
   \<and> search_tokens spec_ops (1 / 2) ''Cradles'' [ex_unrelated, ex_song] ''Sub Urban - Cradles''
       = Inr [Song (ex_song\<lparr>release_date := Some ''2019-01-05''\<rparr>)]
   \<and> mset (map entry_song [Song (ex_song\<lparr>release_date := Some ''2019-01-05''\<rparr>)])
       = mset (map truncated (filter (\<lambda>s. 1 / 2 \<le> title_dist spec_ops ''Cradles'' s) [ex_unrelated, ex_song]))
   \<and> filter (\<lambda>s. 1 / 2 \<le> title_dist spec_ops ''Cradles'' s) [ex_unrelated, ex_song] = [ex_song]"
  using relevance_floor [of spec_ops "1 / 2" "''Cradles''" "[ex_unrelated, ex_song]" "''Sub Urban - Cradles''"
      "[Song (ex_song\<lparr>release_date := Some ''2019-01-05''\<rparr>)]"]
  by (simp add: ex_floor_run ex_floor_dists)

section \<open>The final pass keeps a scoring tuple\<close>

text \<open>
  Claim C4 does not hold of the code: when the first entry after the release-date pass has
  no release date, the \<open>continue\<close> of line 245 skips line 247 as well, so the returned list
  starts with the scoring tuple and not with the song. The comment at line 238 announces
  a result without the score values. The theorem runs \<open>_search_tokens\<close> on a single
  candidate whose release date is the empty string, without and with a title hint.
\<close>

theorem first_entry_stays_tuple:
  "search_tokens spec_ops (1 / 2) ''Cradles'' [ex_no_date] [] = Inr [Tuple ex_no_date 1 0 0 0]
   \<and> search_tokens spec_ops (1 / 2) ''Cradles'' [ex_no_date, ex_unrelated] ''Sub Urban - Cradles''
        = Inr [Tuple ex_no_date 1 0 (2 / 3) (1 / 4)]"
  by code_simp

section \<open>The release-date pass\<close>







section \<open>Order of the normalisation steps\<close>








end
